theory Spec2Isabelle
  imports Complex_Main
begin

section \<open>The Dreambooth tab: upload preview and layer toggles\<close>

text \<open>
  \<^verbatim>\<open>frontend/components/dreambooth_fine_tuning.py\<close> declares twenty pairs of an image
  widget and a caption widget. A handler answers with one \<^verbatim>\<open>gr.update(value=..., visible=...)\<close>
  per output widget; the value is \<^verbatim>\<open>None\<close> or a string.
\<close>

datatype widget_value = NoValue | StrValue string

record gr_update =
  upd_value :: widget_value
  upd_visible :: bool

record uploaded_file =
  name :: string

text \<open>
  The first loop of \<^verbatim>\<open>show_images\<close>: two updates are appended for every file of
  \<^verbatim>\<open>files[:20]\<close>.
\<close>

primrec show_loop :: "uploaded_file list \<Rightarrow> gr_update list \<Rightarrow> gr_update list" where
  "show_loop [] updates = updates"
| "show_loop (f # fs) updates =
     show_loop fs (updates @
       [\<lparr>upd_value = StrValue (name f), upd_visible = True\<rparr>,
        \<lparr>upd_value = StrValue [], upd_visible = True\<rparr>])"

text \<open>The second loop, \<^verbatim>\<open>for _ in range(remaining)\<close>.\<close>

primrec hide_loop :: "nat \<Rightarrow> gr_update list \<Rightarrow> gr_update list" where
  "hide_loop 0 updates = updates"
| "hide_loop (Suc n) updates =
     hide_loop n (updates @
       [\<lparr>upd_value = NoValue, upd_visible = False\<rparr>,
        \<lparr>upd_value = StrValue [], upd_visible = False\<rparr>])"

text \<open>
  \<^verbatim>\<open>show_images(files)\<close>; the argument is \<^verbatim>\<open>None\<close> or a list of uploaded files, and
  \<^verbatim>\<open>not files\<close> holds for \<^verbatim>\<open>None\<close> and for the empty list.
\<close>

definition show_images :: "uploaded_file list option \<Rightarrow> gr_update list" where
  "show_images files =
     (case files of
        None \<Rightarrow> replicate 40 \<lparr>upd_value = NoValue, upd_visible = False\<rparr>
      | Some fs \<Rightarrow>
          if fs = [] then replicate 40 \<lparr>upd_value = NoValue, upd_visible = False\<rparr>
          else
            let updates = show_loop (take 20 fs) [];
                remaining = 20 - length (take 20 fs)
            in hide_loop remaining updates)"

text \<open>
  The two checkboxes of the layer selection. Both register the same handler
  \<^verbatim>\<open>update_blocks_visibility\<close> with the same inputs and outputs, so the handler is not told
  which of the two has just changed. It answers with a dictionary from component to value.
\<close>

datatype checkbox = transformer_blocks_enabled | single_blocks_enabled

definition update_blocks_visibility :: "bool \<Rightarrow> bool \<Rightarrow> (checkbox \<rightharpoonup> bool)" where
  "update_blocks_visibility transformer_enabled single_enabled =
     (if transformer_enabled \<and> single_enabled
      then [transformer_blocks_enabled \<mapsto> True, single_blocks_enabled \<mapsto> False]
      else [transformer_blocks_enabled \<mapsto> transformer_enabled,
            single_blocks_enabled \<mapsto> single_enabled])"

text \<open>
  The page holds one boolean per checkbox. A click flips the clicked checkbox, its
  \<^verbatim>\<open>change\<close> event runs the handler on the two current values, and the answer is
  written back to the outputs it names.
\<close>

type_synonym checkboxes = "checkbox \<Rightarrow> bool"

definition apply_updates :: "(checkbox \<rightharpoonup> bool) \<Rightarrow> checkboxes \<Rightarrow> checkboxes" where
  "apply_updates upd page = (\<lambda>c. case upd c of None \<Rightarrow> page c | Some v \<Rightarrow> v)"

definition on_change :: "checkbox \<Rightarrow> checkboxes \<Rightarrow> checkboxes" where
  "on_change clicked page =
     (let page' = page(clicked := \<not> page clicked)
      in apply_updates
           (update_blocks_visibility (page' transformer_blocks_enabled)
              (page' single_blocks_enabled))
           page')"

section \<open>Python values used by the upscale manager\<close>

text \<open>
  Strings are lists of ASCII characters. Python floats are modelled by the rational number
  they stand for, together with the two infinities and NaN; rounding to binary64 is not
  modelled. Python integers are unbounded, hence \<open>int\<close>.
\<close>

datatype pyfloat = Finite rat | PosInf | NegInf | NaN

datatype pyval = PNone | PBool bool | PInt int | PFloat pyfloat | PStr string

text \<open>Exceptions carry their class and the message that \<^verbatim>\<open>str(e)\<close> returns.\<close>

datatype exc_kind = ValueError | OverflowError | ZeroDivisionError | TypeError | OSError | ImportError
  | RuntimeError

datatype exc = Exc exc_kind string

fun exc_class :: "exc \<Rightarrow> exc_kind" where
  "exc_class (Exc k m) = k"

fun str_exc :: "exc \<Rightarrow> string" where
  "str_exc (Exc k m) = m"

subsection \<open>String methods\<close>

definition is_space :: "char \<Rightarrow> bool" where
  "is_space c \<longleftrightarrow>
     c \<in> set [CHR 0x09, CHR 0x0A, CHR 0x0B, CHR 0x0C, CHR 0x0D,
               CHR 0x1C, CHR 0x1D, CHR 0x1E, CHR 0x1F, CHR 0x20]"

definition strip :: "string \<Rightarrow> string" where
  "strip s = rev (dropWhile is_space (rev (dropWhile is_space s)))"

definition lower_char :: "char \<Rightarrow> char" where
  "lower_char c =
     (case map_of (zip ''ABCDEFGHIJKLMNOPQRSTUVWXYZ'' ''abcdefghijklmnopqrstuvwxyz'') c of
        None \<Rightarrow> c
      | Some d \<Rightarrow> d)"

definition lower :: "string \<Rightarrow> string" where
  "lower s = map lower_char s"

definition endswith :: "string \<Rightarrow> string \<Rightarrow> bool" where
  "endswith s suffix \<longleftrightarrow>
     length suffix \<le> length s \<and> drop (length s - length suffix) s = suffix"

text \<open>\<^verbatim>\<open>s.replace(c, '')\<close> for a single character \<open>c\<close>.\<close>

definition remove_char :: "char \<Rightarrow> string \<Rightarrow> string" where
  "remove_char c s = filter (\<lambda>d. d \<noteq> c) s"

text \<open>\<^verbatim>\<open>"\n".join(xs)\<close>.\<close>

fun join_lines :: "string list \<Rightarrow> string" where
  "join_lines [] = []"
| "join_lines [x] = x"
| "join_lines (x # y # ys) = x @ [CHR 0x0A] @ join_lines (y # ys)"

subsection \<open>Decimal digits, \<^verbatim>\<open>str\<close> and \<^verbatim>\<open>repr\<close>\<close>

definition digit_of :: "char \<Rightarrow> nat option" where
  "digit_of c = map_of (zip ''0123456789'' [0, 1, 2, 3, 4, 5, 6, 7, 8, 9]) c"

definition digit_char :: "nat \<Rightarrow> char" where
  "digit_char d = ''0123456789abcdef'' ! d"

text \<open>The decimal digits of a non-negative integer.\<close>

function str_digits :: "int \<Rightarrow> string" where
  "str_digits n =
     (if n < 10 then [digit_char (nat n)]
      else str_digits (n div 10) @ [digit_char (nat (n mod 10))])"
  by pat_completeness auto
termination
  by (relation "measure nat") auto

text \<open>\<^verbatim>\<open>str(n)\<close> for an integer, as the f-strings of the module format it.\<close>

definition str_int :: "int \<Rightarrow> string" where
  "str_int n = (if n < 0 then CHR ''-'' # str_digits (- n) else str_digits n)"

definition repr_char :: "char \<Rightarrow> char \<Rightarrow> string" where
  "repr_char quote c =
     (if c = quote \<or> c = CHR 0x5C then [CHR 0x5C, c]
      else if c = CHR 0x0A then [CHR 0x5C, CHR ''n'']
      else if c = CHR 0x0D then [CHR 0x5C, CHR ''r'']
      else if c = CHR 0x09 then [CHR 0x5C, CHR ''t'']
      else if (of_char c :: nat) < 32 \<or> (of_char c :: nat) = 127
        then [CHR 0x5C, CHR ''x'', digit_char ((of_char c :: nat) div 16),
              digit_char ((of_char c :: nat) mod 16)]
      else [c])"

text \<open>\<^verbatim>\<open>repr(s)\<close> of an ASCII string, which the messages of \<^verbatim>\<open>int\<close> and \<^verbatim>\<open>float\<close> quote.\<close>

definition repr :: "string \<Rightarrow> string" where
  "repr s =
     (let quote = (if CHR 0x27 \<in> set s \<and> CHR 0x22 \<notin> set s then CHR 0x22 else CHR 0x27)
      in [quote] @ concat (map (repr_char quote) s) @ [quote])"

subsection \<open>The literals accepted by \<^verbatim>\<open>float\<close> and \<^verbatim>\<open>int\<close>\<close>

text \<open>
  After the first digit of a digit part: digits, each optionally preceded by one underscore.
  The result is the digits read and the rest of the string.
\<close>

fun digits_tail :: "string \<Rightarrow> nat list \<times> string" where
  "digits_tail [] = ([], [])"
| "digits_tail (c # cs) =
     (case digit_of c of
        Some d \<Rightarrow> (case digits_tail cs of (ds, r) \<Rightarrow> (d # ds, r))
      | None \<Rightarrow>
          (if c = CHR ''_'' then
             (case cs of
                [] \<Rightarrow> ([], c # cs)
              | c' # cs' \<Rightarrow>
                  (case digit_of c' of
                     Some d \<Rightarrow> (case digits_tail cs' of (ds, r) \<Rightarrow> (d # ds, r))
                   | None \<Rightarrow> ([], c # cs)))
           else ([], c # cs)))"

definition digitpart :: "string \<Rightarrow> (nat list \<times> string) option" where
  "digitpart s =
     (case s of
        [] \<Rightarrow> None
      | c # cs \<Rightarrow>
          (case digit_of c of
             None \<Rightarrow> None
           | Some d \<Rightarrow> (case digits_tail cs of (ds, r) \<Rightarrow> Some (d # ds, r))))"

definition nat_of_digits :: "nat list \<Rightarrow> nat" where
  "nat_of_digits ds = foldl (\<lambda>a d. 10 * a + d) 0 ds"

definition take_sign :: "string \<Rightarrow> int \<times> string" where
  "take_sign s =
     (case s of
        [] \<Rightarrow> (1, [])
      | c # cs \<Rightarrow> if c = CHR ''+'' then (1, cs) else if c = CHR ''-'' then (- 1, cs) else (1, s))"

definition pow10 :: "int \<Rightarrow> rat" where
  "pow10 e = (if 0 \<le> e then 10 ^ nat e else 1 / 10 ^ nat (- e))"

text \<open>An optional exponent; \<open>None\<close> when an \<^verbatim>\<open>e\<close> is not followed by a signed digit part.\<close>

definition parse_exponent :: "string \<Rightarrow> (int \<times> string) option" where
  "parse_exponent s =
     (case s of
        [] \<Rightarrow> Some (0, [])
      | c # cs \<Rightarrow>
          if c = CHR ''e'' \<or> c = CHR ''E'' then
            (case take_sign cs of
               (sg, r) \<Rightarrow>
                 (case digitpart r of
                    None \<Rightarrow> None
                  | Some (ds, r') \<Rightarrow> Some (sg * int (nat_of_digits ds), r')))
          else Some (0, s))"

text \<open>
  An unsigned decimal literal: digits, an optional point with optional digits, an optional
  exponent, and nothing after it. A digit is required before or after the point.
\<close>

definition parse_decimal :: "string \<Rightarrow> rat option" where
  "parse_decimal s =
     (case (case digitpart s of None \<Rightarrow> ([], s) | Some (ds, r) \<Rightarrow> (ds, r)) of
        (ip, r1) \<Rightarrow>
          (case (case r1 of
                   [] \<Rightarrow> ([], r1)
                 | c # cs \<Rightarrow>
                     if c = CHR ''.'' then
                       (case digitpart cs of None \<Rightarrow> ([], cs) | Some (ds, r) \<Rightarrow> (ds, r))
                     else ([], r1)) of
             (fp, r2) \<Rightarrow>
               if ip = [] \<and> fp = [] then None
               else
                 (case parse_exponent r2 of
                    None \<Rightarrow> None
                  | Some (e, r3) \<Rightarrow>
                      if r3 \<noteq> [] then None
                      else Some (of_nat (nat_of_digits (ip @ fp)) * pow10 (e - int (length fp))))))"

text \<open>\<^verbatim>\<open>float(s)\<close> for a string.\<close>

definition float_of_str :: "string \<Rightarrow> exc + pyfloat" where
  "float_of_str s =
     (case take_sign (strip s) of
        (sg, r) \<Rightarrow>
          if lower r = ''inf'' \<or> lower r = ''infinity'' then Inr (if sg = 1 then PosInf else NegInf)
          else if lower r = ''nan'' then Inr NaN
          else
            (case parse_decimal r of
               None \<Rightarrow> Inl (Exc ValueError (''could not convert string to float: '' @ repr s))
             | Some q \<Rightarrow> Inr (Finite (of_int sg * q))))"

text \<open>\<^verbatim>\<open>int(x)\<close> for a float: truncation towards zero.\<close>

definition int_of_float :: "pyfloat \<Rightarrow> exc + int" where
  "int_of_float x =
     (case x of
        Finite q \<Rightarrow> Inr (if 0 \<le> q then \<lfloor>q\<rfloor> else \<lceil>q\<rceil>)
      | NaN \<Rightarrow> Inl (Exc ValueError ''cannot convert float NaN to integer'')
      | _ \<Rightarrow> Inl (Exc OverflowError ''cannot convert float infinity to integer''))"

text \<open>\<^verbatim>\<open>int(s)\<close> for a string, base 10.\<close>

definition int_of_str :: "string \<Rightarrow> exc + int" where
  "int_of_str s =
     (case take_sign (strip s) of
        (sg, r) \<Rightarrow>
          (case digitpart r of
             Some (ds, []) \<Rightarrow> Inr (sg * int (nat_of_digits ds))
           | _ \<Rightarrow> Inl (Exc ValueError (''invalid literal for int() with base 10: '' @ repr s))))"

text \<open>Truth value of an argument, as \<^verbatim>\<open>if x\<close> and \<^verbatim>\<open>not x\<close> test it.\<close>

fun truthy :: "pyval \<Rightarrow> bool" where
  "truthy PNone = False"
| "truthy (PBool b) = b"
| "truthy (PInt n) = (n \<noteq> 0)"
| "truthy (PFloat x) = (x \<noteq> Finite 0)"
| "truthy (PStr s) = (s \<noteq> [])"

fun py_int :: "pyval \<Rightarrow> exc + int" where
  "py_int PNone =
     Inl (Exc TypeError
       (''int() argument must be a string, a bytes-like object or a real number, not '' @
        [CHR 0x27] @ ''NoneType'' @ [CHR 0x27]))"
| "py_int (PBool b) = Inr (if b then 1 else 0)"
| "py_int (PInt n) = Inr n"
| "py_int (PFloat x) = int_of_float x"
| "py_int (PStr s) = int_of_str s"

text \<open>
  \<^verbatim>\<open>try: ... except ValueError: x = d\<close> around a computation of \<open>x\<close>; any other exception
  passes through.
\<close>

definition except_ValueError :: "exc + 'a \<Rightarrow> 'a \<Rightarrow> exc + 'a" where
  "except_ValueError r d =
     (case r of
        Inl e \<Rightarrow> if exc_class e = ValueError then Inr d else Inl e
      | Inr x \<Rightarrow> Inr x)"

definition bind_result :: "exc + 'a \<Rightarrow> ('a \<Rightarrow> exc + 'b) \<Rightarrow> exc + 'b" where
  "bind_result r f = (case r of Inl e \<Rightarrow> Inl e | Inr x \<Rightarrow> f x)"

text \<open>
  Lines 58 to 72 of \<^verbatim>\<open>upscale_image_gradio\<close>: the requested factor as an integer.
\<close>

definition parse_upscale_factor :: "pyval \<Rightarrow> exc + int" where
  "parse_upscale_factor upscale_factor =
     (case upscale_factor of
        PStr s \<Rightarrow>
          if strip s \<noteq> [] then
            (if endswith (lower (strip s)) ''x'' then
               except_ValueError
                 (bind_result (float_of_str (remove_char CHR ''x'' (lower (strip s)))) int_of_float)
                 2
             else
               except_ValueError (bind_result (float_of_str s) int_of_float) 2)
          else (if truthy upscale_factor then py_int upscale_factor else Inr 2)
      | _ \<Rightarrow> if truthy upscale_factor then py_int upscale_factor else Inr 2)"


section \<open>The world of the upscale manager\<close>

text \<open>
  An image is known by its size; its pixels are not modelled.
\<close>

record image =
  width :: int
  height :: int

text \<open>The keyword arguments of \<^verbatim>\<open>Image.save\<close>: the format and, where given, the quality.\<close>

record save_kwargs =
  format :: string
  quality :: "int option"

text \<open>
  What a call does to the outside: the calls of the external upscaler, the files written
  and the two steps of the memory cleanup. Printing is not recorded.
\<close>

datatype event =
    UpscalerCall image int
  | ImageSave image string save_kwargs
  | JsonDump string "(string \<times> pyval) list"
  | GcCollect
  | ForceMlxCleanup

text \<open>
  The collaborators outside the module. Each may raise. \<open>parse_scale_factor\<close> is imported
  from \<^verbatim>\<open>backend.flux_manager\<close> and \<open>OUTPUT_DIR\<close> is derived from the location of the
  module; both are parameters here. The clock is read by position: the \<open>n\<close>-th reading of the
  time gives \<open>clock n\<close>.
\<close>

record env =
  image_open :: "string \<Rightarrow> exc + image"
  convert_rgb :: "image \<Rightarrow> exc + image"
  import_upscaler :: "exc + unit"
  new_upscaler :: "exc + unit"
  upscaler_upscale :: "image \<Rightarrow> int \<Rightarrow> exc + image"
  image_save :: "image \<Rightarrow> string \<Rightarrow> save_kwargs \<Rightarrow> exc + unit"
  json_dump :: "string \<Rightarrow> (string \<times> pyval) list \<Rightarrow> exc + unit"
  parse_scale_factor :: "pyval \<Rightarrow> int \<Rightarrow> exc + int"
  clock :: "nat \<Rightarrow> int"
  ctime :: "nat \<Rightarrow> string"
  OUTPUT_DIR :: string

record world =
  trace :: "event list"
  ticks :: nat

type_synonym 'a action = "world \<Rightarrow> (exc + 'a) \<times> world"

definition ret :: "'a \<Rightarrow> 'a action" where
  "ret x = (\<lambda>s. (Inr x, s))"

definition lift :: "exc + 'a \<Rightarrow> 'a action" where
  "lift r = (\<lambda>s. (r, s))"

definition then_do :: "'a action \<Rightarrow> ('a \<Rightarrow> 'b action) \<Rightarrow> 'b action" where
  "then_do m f = (\<lambda>s. case m s of (Inl e, s') \<Rightarrow> (Inl e, s') | (Inr x, s') \<Rightarrow> f x s')"

definition emit :: "event \<Rightarrow> unit action" where
  "emit ev = (\<lambda>s. (Inr (), s\<lparr>trace := trace s @ [ev]\<rparr>))"

text \<open>\<^verbatim>\<open>try: m except Exception as e: h(e)\<close>.\<close>

definition try_except :: "'a action \<Rightarrow> (exc \<Rightarrow> 'a action) \<Rightarrow> 'a action" where
  "try_except m h = (\<lambda>s. case m s of (Inl e, s') \<Rightarrow> h e s' | (Inr x, s') \<Rightarrow> (Inr x, s'))"

text \<open>
  \<^verbatim>\<open>try: m finally: c\<close>: the final block runs on every path; an exception of the final
  block replaces the outcome of \<open>m\<close>.
\<close>

definition try_finally :: "'a action \<Rightarrow> unit action \<Rightarrow> 'a action" where
  "try_finally m c =
     (\<lambda>s. case m s of
        (r, s') \<Rightarrow> (case c s' of (Inl e, s'') \<Rightarrow> (Inl e, s'') | (Inr u, s'') \<Rightarrow> (r, s'')))"

text \<open>\<^verbatim>\<open>int(time.time())\<close> and \<^verbatim>\<open>str(time.ctime())\<close>.\<close>

definition time_time :: "env \<Rightarrow> int action" where
  "time_time env = (\<lambda>s. (Inr (clock env (ticks s)), s\<lparr>ticks := Suc (ticks s)\<rparr>))"

definition time_ctime :: "env \<Rightarrow> string action" where
  "time_ctime env = (\<lambda>s. (Inr (ctime env (ticks s)), s\<lparr>ticks := Suc (ticks s)\<rparr>))"

text \<open>\<^verbatim>\<open>gc.collect(); force_mlx_cleanup()\<close>, the body of both \<^verbatim>\<open>finally\<close> blocks.\<close>

definition cleanup :: "unit action" where
  "cleanup = then_do (emit GcCollect) (\<lambda>_. emit ForceMlxCleanup)"

subsection \<open>Paths and PIL\<close>

text \<open>\<^verbatim>\<open>os.path.join(a, b)\<close> and \<^verbatim>\<open>os.path.basename(p)\<close> on POSIX.\<close>

definition os_path_join :: "string \<Rightarrow> string \<Rightarrow> string" where
  "os_path_join a b =
     (if b \<noteq> [] \<and> hd b = CHR ''/'' then b
      else if a = [] \<or> last a = CHR ''/'' then a @ b
      else a @ ''/'' @ b)"

definition os_path_basename :: "string \<Rightarrow> string" where
  "os_path_basename p = rev (takeWhile (\<lambda>c. c \<noteq> CHR ''/'') (rev p))"

text \<open>
  \<^verbatim>\<open>image.resize((w, h), Image.Resampling.LANCZOS)\<close>: Pillow answers with an image of the
  requested size and raises \<^verbatim>\<open>ValueError\<close> when a side is below 1.
\<close>

definition image_resize :: "image \<Rightarrow> int \<Rightarrow> int \<Rightarrow> exc + image" where
  "image_resize im w h =
     (if w < 1 \<or> h < 1 then Inl (Exc ValueError ''height and width must be > 0'')
      else Inr (im\<lparr>width := w, height := h\<rparr>))"

text \<open>\<^verbatim>\<open>a / b\<close> on two integers.\<close>

definition true_divide :: "int \<Rightarrow> int \<Rightarrow> exc + rat" where
  "true_divide a b =
     (if b = 0 then Inl (Exc ZeroDivisionError ''division by zero'')
      else Inr (of_int a / of_int b))"

section \<open>The upscale manager\<close>

text \<open>\<^verbatim>\<open>upscale_image(image_path, upscale_factor)\<close>: every exception becomes \<^verbatim>\<open>None\<close>.\<close>

definition upscale_image :: "env \<Rightarrow> string \<Rightarrow> int \<Rightarrow> image option action" where
  "upscale_image env image_path upscale_factor =
     try_except
       (then_do (lift (import_upscaler env)) (\<lambda>_.
        then_do (lift (image_open env image_path)) (\<lambda>opened.
        then_do (lift (convert_rgb env opened)) (\<lambda>image.
        then_do (lift (new_upscaler env)) (\<lambda>_.
        then_do (emit (UpscalerCall image upscale_factor)) (\<lambda>_.
        then_do (lift (upscaler_upscale env image upscale_factor)) (\<lambda>upscaled.
        ret (Some upscaled))))))))
       (\<lambda>e. ret None)"

text \<open>The file extension and the keyword arguments of the save, by output format.\<close>

definition output_settings :: "string \<Rightarrow> string \<times> save_kwargs" where
  "output_settings output_format =
     (if output_format = ''PNG'' then (''png'', \<lparr>format = ''PNG'', quality = None\<rparr>)
      else if output_format = ''JPEG'' then (''jpg'', \<lparr>format = ''JPEG'', quality = Some 95\<rparr>)
      else (''webp'', \<lparr>format = ''WebP'', quality = Some 95\<rparr>))"

text \<open>\<^verbatim>\<open>image.save(output_path, **save_kwargs)\<close>.\<close>

definition save_image :: "env \<Rightarrow> image \<Rightarrow> string \<Rightarrow> save_kwargs \<Rightarrow> unit action" where
  "save_image env im output_path kwargs =
     then_do (emit (ImageSave im output_path kwargs)) (\<lambda>_.
     lift (image_save env im output_path kwargs))"

text \<open>\<^verbatim>\<open>with open(metadata_path, "w") as f: json.dump(metadata_dict, f, indent=2)\<close>.\<close>

definition write_json :: "env \<Rightarrow> string \<Rightarrow> (string \<times> pyval) list \<Rightarrow> unit action" where
  "write_json env metadata_path metadata_dict =
     then_do (emit (JsonDump metadata_path metadata_dict)) (\<lambda>_.
     lift (json_dump env metadata_path metadata_dict))"

definition upscaled_filename :: "int \<Rightarrow> int \<Rightarrow> string \<Rightarrow> string" where
  "upscaled_filename upscale_factor_int timestamp ext =
     ''upscaled_'' @ str_int upscale_factor_int @ ''x_'' @ str_int timestamp @ ''.'' @ ext"

text \<open>The body of the \<^verbatim>\<open>try\<close> block of \<^verbatim>\<open>upscale_image_gradio\<close>.\<close>

definition upscale_image_gradio_body ::
  "env \<Rightarrow> string option \<Rightarrow> pyval \<Rightarrow> string \<Rightarrow> bool \<Rightarrow> (image option \<times> string) action" where
  "upscale_image_gradio_body env input_image upscale_factor output_format metadata =
     (case input_image of
        None \<Rightarrow> ret (None, ''Error: Input image is required'')
      | Some path \<Rightarrow>
          if path = [] then ret (None, ''Error: Input image is required'')
          else
            then_do (lift (image_open env path)) (\<lambda>original_image.
            then_do (lift (parse_upscale_factor upscale_factor)) (\<lambda>upscale_factor_int.
            if upscale_factor_int \<notin> set [2, 3, 4]
            then ret (None, ''Error: Upscale factor must be 2, 3, or 4'')
            else
              then_do (upscale_image env path upscale_factor_int) (\<lambda>result.
              case result of
                None \<Rightarrow> ret (None, ''Error: Failed to upscale image'')
              | Some upscaled_image \<Rightarrow>
                  then_do (time_time env) (\<lambda>timestamp.
                  case output_settings output_format of
                    (ext, kwargs) \<Rightarrow>
                      then_do (save_image env upscaled_image
                                 (os_path_join (OUTPUT_DIR env)
                                    (upscaled_filename upscale_factor_int timestamp ext))
                                 kwargs) (\<lambda>_.
                      then_do
                        (if metadata then
                           then_do (lift (image_open env path)) (\<lambda>original_image.
                           then_do (time_ctime env) (\<lambda>generation_time.
                           write_json env
                             (os_path_join (OUTPUT_DIR env)
                                (upscaled_filename upscale_factor_int timestamp ''json''))
                             [(''original_width'', PInt (width original_image)),
                              (''original_height'', PInt (height original_image)),
                              (''upscaled_width'', PInt (width upscaled_image)),
                              (''upscaled_height'', PInt (height upscaled_image)),
                              (''upscale_factor'', PInt upscale_factor_int),
                              (''output_format'', PStr output_format),
                              (''generation_time'', PStr generation_time),
                              (''original_file'', PStr (os_path_basename path))]))
                         else ret ()) (\<lambda>_.
                      ret (Some upscaled_image,
                           ''Successfully upscaled image '' @ str_int upscale_factor_int @
                           ''x to '' @ str_int (width upscaled_image) @ ''x'' @
                           str_int (height upscaled_image)))))))))"

text \<open>
  \<^verbatim>\<open>upscale_image_gradio\<close>: the body, the \<^verbatim>\<open>except Exception\<close> handler and the
  \<^verbatim>\<open>finally\<close> block.
\<close>

definition upscale_image_gradio ::
  "env \<Rightarrow> string option \<Rightarrow> pyval \<Rightarrow> string \<Rightarrow> bool \<Rightarrow> (image option \<times> string) action" where
  "upscale_image_gradio env input_image upscale_factor output_format metadata =
     try_finally
       (try_except (upscale_image_gradio_body env input_image upscale_factor output_format metadata)
          (\<lambda>e. ret (None, ''Error: '' @ str_exc e)))
       cleanup"


text \<open>Lines 170 to 175: the supported factor for an effective scale.\<close>

definition choose_factor :: "rat \<Rightarrow> int" where
  "choose_factor effective_scale =
     (if effective_scale \<le> 5 / 2 then 2
      else if effective_scale \<le> 7 / 2 then 3
      else 4)"

definition custom_filename :: "int \<Rightarrow> int \<Rightarrow> int \<Rightarrow> string \<Rightarrow> string" where
  "custom_filename final_width final_height timestamp ext =
     ''upscaled_custom_'' @ str_int final_width @ ''x'' @ str_int final_height @ ''_'' @
     str_int timestamp @ ''.'' @ ext"

text \<open>The body of the \<^verbatim>\<open>try\<close> block of \<^verbatim>\<open>upscale_with_custom_dimensions_gradio\<close>.\<close>

definition upscale_with_custom_dimensions_gradio_body ::
  "env \<Rightarrow> string option \<Rightarrow> pyval \<Rightarrow> pyval \<Rightarrow> string \<Rightarrow> bool \<Rightarrow>
     (image option \<times> string) action" where
  "upscale_with_custom_dimensions_gradio_body env input_image target_width target_height
       output_format metadata =
     (case input_image of
        None \<Rightarrow> ret (None, ''Error: Input image is required'')
      | Some path \<Rightarrow>
          if path = [] then ret (None, ''Error: Input image is required'')
          else
            then_do (lift (image_open env path)) (\<lambda>original_image.
            then_do (lift (parse_scale_factor env target_width (width original_image)))
              (\<lambda>final_width.
            then_do (lift (parse_scale_factor env target_height (height original_image)))
              (\<lambda>final_height.
            then_do (lift (true_divide final_width (width original_image))) (\<lambda>scale_x.
            then_do (lift (true_divide final_height (height original_image))) (\<lambda>scale_y.
            then_do (upscale_image env path (choose_factor (max scale_x scale_y))) (\<lambda>result.
            case result of
              None \<Rightarrow> ret (None, ''Error: Failed to upscale image'')
            | Some upscaled \<Rightarrow>
                then_do
                  (if width upscaled \<noteq> final_width \<or> height upscaled \<noteq> final_height
                   then lift (image_resize upscaled final_width final_height)
                   else ret upscaled) (\<lambda>upscaled_image.
                then_do (time_time env) (\<lambda>timestamp.
                case output_settings output_format of
                  (ext, kwargs) \<Rightarrow>
                    then_do (save_image env upscaled_image
                               (os_path_join (OUTPUT_DIR env)
                                  (custom_filename final_width final_height timestamp ext))
                               kwargs) (\<lambda>_.
                    then_do
                      (if metadata then
                         then_do (time_ctime env) (\<lambda>generation_time.
                         write_json env
                           (os_path_join (OUTPUT_DIR env)
                              (custom_filename final_width final_height timestamp ''json''))
                           [(''original_width'', PInt (width original_image)),
                            (''original_height'', PInt (height original_image)),
                            (''upscaled_width'', PInt (width upscaled_image)),
                            (''upscaled_height'', PInt (height upscaled_image)),
                            (''target_width'', target_width),
                            (''target_height'', target_height),
                            (''effective_scale'', PFloat (Finite (max scale_x scale_y))),
                            (''upscale_factor_used'', PInt (choose_factor (max scale_x scale_y))),
                            (''output_format'', PStr output_format),
                            (''generation_time'', PStr generation_time),
                            (''original_file'', PStr (os_path_basename path))])
                       else ret ()) (\<lambda>_.
                    ret (Some upscaled_image,
                         ''Successfully upscaled image to '' @ str_int (width upscaled_image) @
                         ''x'' @ str_int (height upscaled_image)))))))))))))"

definition upscale_with_custom_dimensions_gradio ::
  "env \<Rightarrow> string option \<Rightarrow> pyval \<Rightarrow> pyval \<Rightarrow> string \<Rightarrow> bool \<Rightarrow>
     (image option \<times> string) action" where
  "upscale_with_custom_dimensions_gradio env input_image target_width target_height
       output_format metadata =
     try_finally
       (try_except
          (upscale_with_custom_dimensions_gradio_body env input_image target_width target_height
             output_format metadata)
          (\<lambda>e. ret (None, ''Error: '' @ str_exc e)))
       cleanup"

text \<open>
  The loop of \<^verbatim>\<open>batch_upscale_gradio\<close> over \<^verbatim>\<open>enumerate(input_images)\<close>, with its inner
  \<^verbatim>\<open>try\<close> block; \<open>idx\<close> counts from 0.
\<close>

fun batch_loop ::
  "env \<Rightarrow> pyval \<Rightarrow> string \<Rightarrow> bool \<Rightarrow> nat \<Rightarrow> string option list \<Rightarrow> image list \<Rightarrow> string list \<Rightarrow>
     (image list \<times> string list) action" where
  "batch_loop env upscale_factor output_format metadata idx [] upscaled_images errors =
     ret (upscaled_images, errors)"
| "batch_loop env upscale_factor output_format metadata idx (image_path # rest)
       upscaled_images errors =
     then_do
       (try_except
          (then_do (upscale_image_gradio env image_path upscale_factor output_format metadata)
             (\<lambda>(upscaled, message).
                case upscaled of
                  Some im \<Rightarrow> ret (upscaled_images @ [im], errors)
                | None \<Rightarrow>
                    ret (upscaled_images,
                         errors @ [''Image '' @ str_int (int idx + 1) @ '': '' @ message])))
          (\<lambda>e. ret (upscaled_images,
                    errors @ [''Image '' @ str_int (int idx + 1) @ '': '' @ str_exc e])))
       (\<lambda>(upscaled_images', errors').
          batch_loop env upscale_factor output_format metadata (Suc idx) rest
            upscaled_images' errors')"

text \<open>\<^verbatim>\<open>batch_upscale_gradio\<close>; it has an \<^verbatim>\<open>except\<close> handler and no \<^verbatim>\<open>finally\<close> block.\<close>

definition batch_upscale_gradio ::
  "env \<Rightarrow> string option list option \<Rightarrow> pyval \<Rightarrow> string \<Rightarrow> bool \<Rightarrow> (image list \<times> string) action" where
  "batch_upscale_gradio env input_images upscale_factor output_format metadata =
     try_except
       (case input_images of
          None \<Rightarrow> ret ([], ''Error: No images provided'')
        | Some paths \<Rightarrow>
            if paths = [] then ret ([], ''Error: No images provided'')
            else
              then_do (batch_loop env upscale_factor output_format metadata 0 paths [] [])
                (\<lambda>(upscaled_images, errors).
                   if upscaled_images \<noteq> [] then
                     ret (upscaled_images,
                          ''Successfully upscaled '' @ str_int (int (length upscaled_images)) @
                          '' image(s)'' @
                          (if errors \<noteq> []
                           then [CHR 0x0A, CHR 0x0A] @ ''Errors:'' @ [CHR 0x0A] @ join_lines errors
                           else []))
                   else
                     ret ([], ''Failed to upscale any images'' @ [CHR 0x0A, CHR 0x0A] @
                              join_lines errors)))
       (\<lambda>e. ret ([], ''Error: '' @ str_exc e))"

section \<open>Notions used to state the properties\<close>

text \<open>How often the two cleanup steps have run in a world.\<close>

definition gc_count :: "world \<Rightarrow> nat" where
  "gc_count s = length (filter (\<lambda>ev. ev = GcCollect) (trace s))"

definition cleanup_count :: "world \<Rightarrow> nat" where
  "cleanup_count s = length (filter (\<lambda>ev. ev = ForceMlxCleanup) (trace s))"

text \<open>The factors that were passed to the external upscaler, oldest first.\<close>

fun upscaler_factors :: "event list \<Rightarrow> int list" where
  "upscaler_factors [] = []"
| "upscaler_factors (UpscalerCall im f # evs) = f # upscaler_factors evs"
| "upscaler_factors (ev # evs) = upscaler_factors evs"

text \<open>The files written by \<^verbatim>\<open>Image.save\<close>, oldest first.\<close>

fun saves :: "event list \<Rightarrow> (image \<times> string \<times> save_kwargs) list" where
  "saves [] = []"
| "saves (ImageSave im path kwargs # evs) = (im, path, kwargs) # saves evs"
| "saves (ev # evs) = saves evs"


text \<open>
  The batch as the specification describes it: the images are processed one after the other,
  each call of \<^verbatim>\<open>upscale_image_gradio\<close> starting in the world the previous one left.
\<close>

fun run_each ::
  "env \<Rightarrow> pyval \<Rightarrow> string \<Rightarrow> bool \<Rightarrow> string option list \<Rightarrow> world \<Rightarrow>
     (exc + image option \<times> string) list \<times> world" where
  "run_each env upscale_factor output_format metadata [] s = ([], s)"
| "run_each env upscale_factor output_format metadata (image_path # rest) s =
     (case upscale_image_gradio env image_path upscale_factor output_format metadata s of
        (r, s') \<Rightarrow>
          (case run_each env upscale_factor output_format metadata rest s' of
             (rs, s'') \<Rightarrow> (r # rs, s'')))"

text \<open>The images of the calls that succeeded, in order.\<close>

fun successes :: "(exc + image option \<times> string) list \<Rightarrow> image list" where
  "successes [] = []"
| "successes (Inr (Some im, message) # rs) = im # successes rs"
| "successes (r # rs) = successes rs"

text \<open>
  One line per call that failed, labelled with the position of its image; \<open>idx\<close> is the
  position of the first outcome of the list, counted from 0.
\<close>

fun failure_lines :: "nat \<Rightarrow> (exc + image option \<times> string) list \<Rightarrow> string list" where
  "failure_lines idx [] = []"
| "failure_lines idx (Inr (Some im, message) # rs) = failure_lines (Suc idx) rs"
| "failure_lines idx (Inr (None, message) # rs) =
     (''Image '' @ str_int (int idx + 1) @ '': '' @ message) # failure_lines (Suc idx) rs"
| "failure_lines idx (Inl e # rs) =
     (''Image '' @ str_int (int idx + 1) @ '': '' @ str_exc e) # failure_lines (Suc idx) rs"

text \<open>The answer of the batch for given outcomes: the images and the summary message.\<close>

definition batch_summary :: "(exc + image option \<times> string) list \<Rightarrow> image list \<times> string" where
  "batch_summary rs =
     (if successes rs \<noteq> [] then
        (successes rs,
         ''Successfully upscaled '' @ str_int (int (length (successes rs))) @ '' image(s)'' @
         (if failure_lines 0 rs \<noteq> []
          then [CHR 0x0A, CHR 0x0A] @ ''Errors:'' @ [CHR 0x0A] @ join_lines (failure_lines 0 rs)
          else []))
      else
        ([], ''Failed to upscale any images'' @ [CHR 0x0A, CHR 0x0A] @
             join_lines (failure_lines 0 rs)))"

text \<open>
  A sample world for the concrete cases: \<^verbatim>\<open>b.png\<close> cannot be opened, \<^verbatim>\<open>small.png\<close> is
  50 by 50, every other file is 100 by 100; the upscaler multiplies both sides by the factor;
  writing files succeeds; a target dimension given as an integer is taken as it is.
\<close>

definition sample_env :: env where
  "sample_env =
     \<lparr>image_open =
        (\<lambda>p. if p = ''b.png'' then Inl (Exc OSError ''cannot identify image file'')
              else if p = ''small.png'' then Inr \<lparr>width = 50, height = 50\<rparr>
              else Inr \<lparr>width = 100, height = 100\<rparr>),
      convert_rgb = Inr,
      import_upscaler = Inr (),
      new_upscaler = Inr (),
      upscaler_upscale = (\<lambda>im f. Inr \<lparr>width = f * width im, height = f * height im\<rparr>),
      image_save = (\<lambda>im p k. Inr ()),
      json_dump = (\<lambda>p d. Inr ()),
      parse_scale_factor = (\<lambda>v d. case v of PInt n \<Rightarrow> Inr n | _ \<Rightarrow> Inr d),
      clock = (\<lambda>n. 1700000000 + int n),
      ctime = (\<lambda>n. ''Tue Nov 14 22:13:20 2023''),
      OUTPUT_DIR = ''/app/output''\<rparr>"

definition fresh_world :: world where
  "fresh_world = \<lparr>trace = [], ticks = 0\<rparr>"

section \<open>Notions used in the proofs\<close>

text \<open>
  An action keeps a property of the world; an action returns only values with a property.
\<close>

definition preserves :: "(world \<Rightarrow> bool) \<Rightarrow> 'a action \<Rightarrow> bool" where
  "preserves Q m \<longleftrightarrow> (\<forall>s. Q s \<longrightarrow> Q (snd (m s)))"

definition returns :: "('a \<Rightarrow> bool) \<Rightarrow> 'a action \<Rightarrow> bool" where
  "returns R m \<longleftrightarrow> (\<forall>s x s'. m s = (Inr x, s') \<longrightarrow> R x)"

named_theorems preserves_intros
named_theorems returns_intros

text \<open>Counting the cleanup steps.\<close>

definition counts :: "nat \<Rightarrow> nat \<Rightarrow> world \<Rightarrow> bool" where
  "counts g c s \<longleftrightarrow> gc_count s = g \<and> cleanup_count s = c"


definition factors_are :: "int list \<Rightarrow> world \<Rightarrow> bool" where
  "factors_are fs s \<longleftrightarrow> upscaler_factors (trace s) = fs"

text \<open>Only supported factors reach the upscaler.\<close>

definition all_supported :: "world \<Rightarrow> bool" where
  "all_supported s \<longleftrightarrow> list_all (\<lambda>f. f \<in> {2, 3, 4}) (upscaler_factors (trace s))"



section \<open>Properties of the Dreambooth tab\<close>

lemma length_show_loop: "length (show_loop fs updates) = length updates + 2 * length fs"
  by (induction fs arbitrary: updates) simp_all

lemma length_hide_loop: "length (hide_loop n updates) = length updates + 2 * n"
  by (induction n arbitrary: updates) simp_all

lemma show_loop_append:
  "show_loop fs updates =
     updates @ concat (map (\<lambda>f. [\<lparr>upd_value = StrValue (name f), upd_visible = True\<rparr>,
                                    \<lparr>upd_value = StrValue [], upd_visible = True\<rparr>]) fs)"
  by (induction fs arbitrary: updates) simp_all

lemma hide_loop_append:
  "hide_loop n updates =
     updates @ concat (replicate n [\<lparr>upd_value = NoValue, upd_visible = False\<rparr>,
                                     \<lparr>upd_value = StrValue [], upd_visible = False\<rparr>])"
  by (induction n arbitrary: updates) simp_all

lemma nth_concat_pairs:
  "i < length xs \<Longrightarrow>
     concat (map (\<lambda>x. [g x, h x]) xs) ! (2 * i) = g (xs ! i) \<and>
     concat (map (\<lambda>x. [g x, h x]) xs) ! (2 * i + 1) = h (xs ! i)"
proof (induction xs arbitrary: i)
  case Nil
  then show ?case by simp
next
  case (Cons x xs)
  show ?case
  proof (cases i)
    case 0
    then show ?thesis by simp
  next
    case (Suc j)
    with Cons.prems have "j < length xs" by simp
    from Cons.IH [OF this] Suc show ?thesis by simp
  qed
qed

lemma length_concat_pairs: "length (concat (map (\<lambda>x. [g x, h x]) xs)) = 2 * length xs"
  by (induction xs) simp_all

lemma nth_concat_replicate_pair:
  "j < n \<Longrightarrow>
     concat (replicate n [a, b]) ! (2 * j) = a \<and> concat (replicate n [a, b]) ! (2 * j + 1) = b"
proof (induction n arbitrary: j)
  case 0
  then show ?case by simp
next
  case (Suc n)
  show ?case
  proof (cases j)
    case 0
    then show ?thesis by simp
  next
    case (Suc k)
    with Suc.prems have "k < n" by simp
    from Suc.IH [OF this] Suc show ?thesis by simp
  qed
qed

lemma nth_pairs_left:
  assumes "i < length xs"
  shows "(concat (map (\<lambda>x. [g x, h x]) xs) @ B) ! (2 * i) = g (xs ! i)"
    and "(concat (map (\<lambda>x. [g x, h x]) xs) @ B) ! (2 * i + 1) = h (xs ! i)"
proof -
  let ?A = "concat (map (\<lambda>x. [g x, h x]) xs)"
  have len: "length ?A = 2 * length xs" by (rule length_concat_pairs)
  have "2 * i < length ?A" "2 * i + 1 < length ?A" using assms len by linarith+
  then have "(?A @ B) ! (2 * i) = ?A ! (2 * i)" "(?A @ B) ! (2 * i + 1) = ?A ! (2 * i + 1)"
    by (simp_all only: nth_append if_True)
  with nth_concat_pairs [OF assms, of g h]
  show "(?A @ B) ! (2 * i) = g (xs ! i)" and "(?A @ B) ! (2 * i + 1) = h (xs ! i)"
    by (simp_all only:)
qed

lemma nth_pairs_right:
  assumes "length xs \<le> i" "i - length xs < n"
  shows "(concat (map (\<lambda>x. [g x, h x]) xs) @ concat (replicate n [a, b])) ! (2 * i) = a"
    and "(concat (map (\<lambda>x. [g x, h x]) xs) @ concat (replicate n [a, b])) ! (2 * i + 1) = b"
proof -
  let ?A = "concat (map (\<lambda>x. [g x, h x]) xs)"
  let ?B = "concat (replicate n [a, b])"
  have len: "length ?A = 2 * length xs" by (rule length_concat_pairs)
  have ge: "\<not> 2 * i < length ?A" "\<not> 2 * i + 1 < length ?A" using assms(1) len by linarith+
  have ix: "2 * i - length ?A = 2 * (i - length xs)"
    "2 * i + 1 - length ?A = 2 * (i - length xs) + 1"
    using assms(1) len by linarith+
  have "(?A @ ?B) ! (2 * i) = ?B ! (2 * (i - length xs))"
    "(?A @ ?B) ! (2 * i + 1) = ?B ! (2 * (i - length xs) + 1)"
    using ge ix by (simp_all only: nth_append if_False)
  with nth_concat_replicate_pair [OF assms(2), of a b]
  show "(?A @ ?B) ! (2 * i) = a" and "(?A @ ?B) ! (2 * i + 1) = b"
    by (simp_all only:)
qed


lemma show_images_Some:
  "fs \<noteq> [] \<Longrightarrow>
   show_images (Some fs) =
     concat (map (\<lambda>f. [\<lparr>upd_value = StrValue (name f), upd_visible = True\<rparr>,
                        \<lparr>upd_value = StrValue [], upd_visible = True\<rparr>]) (take 20 fs))
     @ concat (replicate (20 - length (take 20 fs))
          [\<lparr>upd_value = NoValue, upd_visible = False\<rparr>,
           \<lparr>upd_value = StrValue [], upd_visible = False\<rparr>])"
  by (simp add: show_images_def show_loop_append hide_loop_append Let_def)

lemma length_show_images: "length (show_images files) = 40"
  by (auto simp: show_images_def length_hide_loop length_show_loop Let_def split: option.splits)

lemma show_images_shown:
  assumes "fs \<noteq> []" "i < 20" "i < length fs"
  shows "show_images (Some fs) ! (2 * i) = \<lparr>upd_value = StrValue (name (fs ! i)), upd_visible = True\<rparr>"
    and "show_images (Some fs) ! (2 * i + 1) = \<lparr>upd_value = StrValue [], upd_visible = True\<rparr>"
proof -
  have i: "i < length (take 20 fs)" using assms by simp
  have nth: "take 20 fs ! i = fs ! i" using assms(2) by simp
  show "show_images (Some fs) ! (2 * i) = \<lparr>upd_value = StrValue (name (fs ! i)), upd_visible = True\<rparr>"
    unfolding show_images_Some [OF assms(1)] nth_pairs_left(1) [OF i] nth ..
  show "show_images (Some fs) ! (2 * i + 1) = \<lparr>upd_value = StrValue [], upd_visible = True\<rparr>"
    unfolding show_images_Some [OF assms(1)] nth_pairs_left(2) [OF i] ..
qed

lemma show_images_hidden:
  assumes "fs \<noteq> []" "i < 20" "length fs \<le> i"
  shows "show_images (Some fs) ! (2 * i) = \<lparr>upd_value = NoValue, upd_visible = False\<rparr>"
    and "show_images (Some fs) ! (2 * i + 1) = \<lparr>upd_value = StrValue [], upd_visible = False\<rparr>"
proof -
  have k: "length (take 20 fs) \<le> i" using assms by simp
  have j: "i - length (take 20 fs) < 20 - length (take 20 fs)" using assms by simp
  show "show_images (Some fs) ! (2 * i) = \<lparr>upd_value = NoValue, upd_visible = False\<rparr>"
    unfolding show_images_Some [OF assms(1)] by (rule nth_pairs_right(1) [OF k j])
  show "show_images (Some fs) ! (2 * i + 1) = \<lparr>upd_value = StrValue [], upd_visible = False\<rparr>"
    unfolding show_images_Some [OF assms(1)] by (rule nth_pairs_right(2) [OF k j])
qed

lemma show_images_take: "fs \<noteq> [] \<Longrightarrow> show_images (Some fs) = show_images (Some (take 20 fs))"
  by (cases fs) (simp_all add: show_images_def)


text \<open>
  Claim C10. \<^verbatim>\<open>show_images\<close> always answers with exactly 40 updates, an image update at
  every even position and a caption update at every odd one, for 20 slots. With no file list
  or an empty one all 40 updates are the hidden update. With a non-empty list only the first 20
  files count: slot \<open>i\<close> below the number of files shows file \<open>i\<close> by its name with an
  emptied, visible caption, every later slot is hidden, and the files after the twentieth
  change nothing.
\<close>

theorem show_images_forty_updates:
  "length (show_images files) = 40 \<and>
   (files = None \<or> files = Some [] \<longrightarrow>
      show_images files = replicate 40 \<lparr>upd_value = NoValue, upd_visible = False\<rparr>) \<and>
   (\<forall>fs. files = Some fs \<and> fs \<noteq> [] \<longrightarrow>
      show_images files = show_images (Some (take 20 fs)) \<and>
      (\<forall>i<20.
         (i < length fs \<longrightarrow>
            show_images files ! (2 * i) =
              \<lparr>upd_value = StrValue (name (fs ! i)), upd_visible = True\<rparr> \<and>
            show_images files ! (2 * i + 1) = \<lparr>upd_value = StrValue [], upd_visible = True\<rparr>) \<and>
         (length fs \<le> i \<longrightarrow>
            show_images files ! (2 * i) = \<lparr>upd_value = NoValue, upd_visible = False\<rparr> \<and>
            show_images files ! (2 * i + 1) = \<lparr>upd_value = StrValue [], upd_visible = False\<rparr>)))"
proof (intro conjI allI impI)
  show "length (show_images files) = 40" by (rule length_show_images)
next
  assume "files = None \<or> files = Some []"
  then show "show_images files = replicate 40 \<lparr>upd_value = NoValue, upd_visible = False\<rparr>"
    by (auto simp: show_images_def)
next
  fix fs assume a: "files = Some fs \<and> fs \<noteq> []"
  then have f: "files = Some fs" and ne: "fs \<noteq> []" by simp_all
  show "show_images files = show_images (Some (take 20 fs))"
    unfolding f by (rule show_images_take [OF ne])
next
  fix fs i assume a: "files = Some fs \<and> fs \<noteq> []" and i: "i < 20" "i < length fs"
  from a have f: "files = Some fs" and ne: "fs \<noteq> []" by simp_all
  show "show_images files ! (2 * i) =
      \<lparr>upd_value = StrValue (name (fs ! i)), upd_visible = True\<rparr>"
    unfolding f by (rule show_images_shown(1) [OF ne i])
next
  fix fs i assume a: "files = Some fs \<and> fs \<noteq> []" and i: "i < 20" "i < length fs"
  from a have f: "files = Some fs" and ne: "fs \<noteq> []" by simp_all
  show "show_images files ! (2 * i + 1) = \<lparr>upd_value = StrValue [], upd_visible = True\<rparr>"
    unfolding f by (rule show_images_shown(2) [OF ne i])
next
  fix fs i assume a: "files = Some fs \<and> fs \<noteq> []" and i: "i < 20" "length fs \<le> i"
  from a have f: "files = Some fs" and ne: "fs \<noteq> []" by simp_all
  show "show_images files ! (2 * i) = \<lparr>upd_value = NoValue, upd_visible = False\<rparr>"
    unfolding f by (rule show_images_hidden(1) [OF ne i])
next
  fix fs i assume a: "files = Some fs \<and> fs \<noteq> []" and i: "i < 20" "length fs \<le> i"
  from a have f: "files = Some fs" and ne: "fs \<noteq> []" by simp_all
  show "show_images files ! (2 * i + 1) = \<lparr>upd_value = StrValue [], upd_visible = False\<rparr>"
    unfolding f by (rule show_images_hidden(2) [OF ne i])
qed

theorem show_images_forty_updates_witness:
  "show_images (Some [\<lparr>name = ''a.png''\<rparr>, \<lparr>name = ''b.png''\<rparr>]) ! 2 =
     \<lparr>upd_value = StrValue ''b.png'', upd_visible = True\<rparr> \<and>
   show_images (Some [\<lparr>name = ''a.png''\<rparr>, \<lparr>name = ''b.png''\<rparr>]) ! 3 =
     \<lparr>upd_value = StrValue [], upd_visible = True\<rparr> \<and>
   show_images (Some [\<lparr>name = ''a.png''\<rparr>, \<lparr>name = ''b.png''\<rparr>]) ! 4 =
     \<lparr>upd_value = NoValue, upd_visible = False\<rparr> \<and>
   show_images (Some [\<lparr>name = ''a.png''\<rparr>, \<lparr>name = ''b.png''\<rparr>]) ! 5 =
     \<lparr>upd_value = StrValue [], upd_visible = False\<rparr> \<and>
   length (show_images (Some [\<lparr>name = ''a.png''\<rparr>, \<lparr>name = ''b.png''\<rparr>])) = 40 \<and>
   show_images None = replicate 40 \<lparr>upd_value = NoValue, upd_visible = False\<rparr>"
proof -
  let ?fs = "[\<lparr>name = ''a.png''\<rparr>, \<lparr>name = ''b.png''\<rparr>]"
  from show_images_forty_updates [of "Some ?fs"]
  have len: "length (show_images (Some ?fs)) = 40"
    and slots: "\<forall>i<20.
         (i < length ?fs \<longrightarrow>
            show_images (Some ?fs) ! (2 * i) =
              \<lparr>upd_value = StrValue (name (?fs ! i)), upd_visible = True\<rparr> \<and>
            show_images (Some ?fs) ! (2 * i + 1) = \<lparr>upd_value = StrValue [], upd_visible = True\<rparr>) \<and>
         (length ?fs \<le> i \<longrightarrow>
            show_images (Some ?fs) ! (2 * i) = \<lparr>upd_value = NoValue, upd_visible = False\<rparr> \<and>
            show_images (Some ?fs) ! (2 * i + 1) = \<lparr>upd_value = StrValue [], upd_visible = False\<rparr>)"
    by simp_all
  from slots [rule_format, of 1] slots [rule_format, of 2] len
    show_images_forty_updates [of None]
  show ?thesis by simp
qed

text \<open>
  Claim C9. The claim asks that the checkbox that was not just changed is the one switched
  off. Evaluated on the page where the transformer blocks are enabled and the user then
  enables the single transformer blocks: the handler switches the single blocks, the checkbox
  just clicked, back off and keeps the transformer blocks on, so the page is as before the
  click.
\<close>

theorem on_change_single_after_transformer:
  "on_change single_blocks_enabled
     (\<lambda>c. case c of transformer_blocks_enabled \<Rightarrow> True | single_blocks_enabled \<Rightarrow> False) =
   (\<lambda>c. case c of transformer_blocks_enabled \<Rightarrow> True | single_blocks_enabled \<Rightarrow> False)"
  by (rule ext) (simp add: on_change_def update_blocks_visibility_def apply_updates_def split: checkbox.splits)

section \<open>Properties of the upscale manager\<close>

lemma preservesD: "preserves Q m \<Longrightarrow> Q s \<Longrightarrow> Q (snd (m s))"
  by (simp add: preserves_def)

lemma preserves_ret [preserves_intros]: "preserves Q (ret x)"
  by (simp add: preserves_def ret_def)

lemma preserves_lift [preserves_intros]: "preserves Q (lift r)"
  by (simp add: preserves_def lift_def)

lemma preserves_then_do [preserves_intros]:
  "preserves Q m \<Longrightarrow> (\<And>x. preserves Q (f x)) \<Longrightarrow> preserves Q (then_do m f)"
  unfolding preserves_def then_do_def
proof (intro allI impI)
  fix s assume a: "\<forall>s. Q s \<longrightarrow> Q (snd (m s))" "\<And>x. \<forall>s. Q s \<longrightarrow> Q (snd (f x s))" "Q s"
  obtain r s' where ms: "m s = (r, s')" by (cases "m s")
  with a have q: "Q s'" by (metis snd_conv)
  show "Q (snd (case m s of (Inl e, s') \<Rightarrow> (Inl e, s') | (Inr x, s') \<Rightarrow> f x s'))"
    using ms q a(2) by (cases r) simp_all
qed

lemma preserves_try_except [preserves_intros]:
  "preserves Q m \<Longrightarrow> (\<And>e. preserves Q (h e)) \<Longrightarrow> preserves Q (try_except m h)"
  unfolding preserves_def try_except_def
proof (intro allI impI)
  fix s assume a: "\<forall>s. Q s \<longrightarrow> Q (snd (m s))" "\<And>e. \<forall>s. Q s \<longrightarrow> Q (snd (h e s))" "Q s"
  obtain r s' where ms: "m s = (r, s')" by (cases "m s")
  with a have q: "Q s'" by (metis snd_conv)
  show "Q (snd (case m s of (Inl e, s') \<Rightarrow> h e s' | (Inr x, s') \<Rightarrow> (Inr x, s')))"
    using ms q a(2) by (cases r) simp_all
qed

lemma preserves_if [preserves_intros]:
  "(c \<Longrightarrow> preserves Q a) \<Longrightarrow> (\<not> c \<Longrightarrow> preserves Q b) \<Longrightarrow> preserves Q (if c then a else b)"
  by simp

lemma preserves_case_option [preserves_intros]:
  "(x = None \<Longrightarrow> preserves Q a) \<Longrightarrow> (\<And>y. x = Some y \<Longrightarrow> preserves Q (b y)) \<Longrightarrow>
   preserves Q (case x of None \<Rightarrow> a | Some y \<Rightarrow> b y)"
  by (cases x) simp_all

lemma preserves_case_prod [preserves_intros]:
  "(\<And>a b. x = (a, b) \<Longrightarrow> preserves Q (f a b)) \<Longrightarrow> preserves Q (case x of (a, b) \<Rightarrow> f a b)"
  by (cases x) simp

lemma preserves_emit:
  "(\<And>s. Q s \<Longrightarrow> Q (s\<lparr>trace := trace s @ [ev]\<rparr>)) \<Longrightarrow> preserves Q (emit ev)"
  by (simp add: preserves_def emit_def)

lemma preserves_time_time:
  "(\<And>s. Q s \<Longrightarrow> Q (s\<lparr>ticks := Suc (ticks s)\<rparr>)) \<Longrightarrow> preserves Q (time_time env)"
  by (simp add: preserves_def time_time_def)

lemma preserves_time_ctime:
  "(\<And>s. Q s \<Longrightarrow> Q (s\<lparr>ticks := Suc (ticks s)\<rparr>)) \<Longrightarrow> preserves Q (time_ctime env)"
  by (simp add: preserves_def time_ctime_def)

lemma counts_ticks [simp]: "counts g c (s\<lparr>ticks := n\<rparr>) = counts g c s"
  by (simp add: counts_def gc_count_def cleanup_count_def)

lemma counts_emit_other [simp]:
  "ev \<noteq> GcCollect \<Longrightarrow> ev \<noteq> ForceMlxCleanup \<Longrightarrow>
   counts g c (s\<lparr>trace := trace s @ [ev]\<rparr>) = counts g c s"
  by (simp add: counts_def gc_count_def cleanup_count_def)

lemma upscale_image_counts: "preserves (counts g c) (upscale_image env p f)"
  unfolding upscale_image_def
  by (intro preserves_intros preserves_emit) simp

lemma save_image_counts: "preserves (counts g c) (save_image env im path kw)"
  unfolding save_image_def
  by (intro preserves_intros preserves_emit) simp

lemma write_json_counts: "preserves (counts g c) (write_json env path d)"
  unfolding write_json_def
  by (intro preserves_intros preserves_emit) simp

lemma upscale_image_gradio_body_counts:
  "preserves (counts g c) (upscale_image_gradio_body env input_image upscale_factor output_format metadata)"
  unfolding upscale_image_gradio_body_def
  by (intro preserves_intros upscale_image_counts save_image_counts write_json_counts
      preserves_time_time preserves_time_ctime) simp_all

lemma custom_body_counts:
  "preserves (counts g c)
     (upscale_with_custom_dimensions_gradio_body env input_image tw th output_format metadata)"
  unfolding upscale_with_custom_dimensions_gradio_body_def
  by (intro preserves_intros upscale_image_counts save_image_counts write_json_counts
      preserves_time_time preserves_time_ctime) simp_all

lemma cleanup_run:
  "cleanup s = (Inr (), s\<lparr>trace := trace s @ [GcCollect, ForceMlxCleanup]\<rparr>)"
  by (simp add: cleanup_def then_do_def emit_def)

lemma try_finally_cleanup:
  "try_finally m cleanup s =
     (fst (m s), (snd (m s))\<lparr>trace := trace (snd (m s)) @ [GcCollect, ForceMlxCleanup]\<rparr>)"
  by (simp add: try_finally_def cleanup_run split: prod.splits)

lemma counts_cleanup:
  "counts g c s \<Longrightarrow> counts (Suc g) (Suc c) (s\<lparr>trace := trace s @ [GcCollect, ForceMlxCleanup]\<rparr>)"
  by (simp add: counts_def gc_count_def cleanup_count_def)

lemma upscale_image_gradio_counts:
  "counts g c s \<Longrightarrow>
   counts (Suc g) (Suc c)
     (snd (upscale_image_gradio env input_image upscale_factor output_format metadata s))"
  unfolding upscale_image_gradio_def try_finally_cleanup snd_conv
  by (intro counts_cleanup preservesD [where Q = "counts g c"] preserves_intros
      upscale_image_gradio_body_counts)

lemma custom_counts:
  "counts g c s \<Longrightarrow>
   counts (Suc g) (Suc c)
     (snd (upscale_with_custom_dimensions_gradio env input_image tw th output_format metadata s))"
  unfolding upscale_with_custom_dimensions_gradio_def try_finally_cleanup snd_conv
  by (intro counts_cleanup preservesD [where Q = "counts g c"] preserves_intros
      custom_body_counts)

lemma successes_Cons: "successes (r # rs) = successes [r] @ successes rs"
  by (cases "(r # rs)" rule: successes.cases) simp_all

lemma failure_lines_Cons:
  "failure_lines idx (r # rs) = failure_lines idx [r] @ failure_lines (Suc idx) rs"
  by (cases "(idx, r # rs)" rule: failure_lines.cases) simp_all

lemma batch_loop_step:
  "batch_loop env uf fmt md idx (p # rest) ims errs s =
     (case upscale_image_gradio env p uf fmt md s of
        (r, s1) \<Rightarrow>
          batch_loop env uf fmt md (Suc idx) rest
            (ims @ successes [r]) (errs @ failure_lines idx [r]) s1)"
proof -
  obtain r s1 where run: "upscale_image_gradio env p uf fmt md s = (r, s1)"
    by (cases "upscale_image_gradio env p uf fmt md s")
  show ?thesis
  proof (cases r)
    case (Inl e)
    with run show ?thesis
      by (simp add: then_do_def try_except_def ret_def)
  next
    case (Inr v)
    obtain up msg where v: "v = (up, msg)" by (cases v)
    show ?thesis
    proof (cases up)
      case None
      with run Inr v show ?thesis
        by (simp add: then_do_def try_except_def ret_def)
    next
      case (Some im)
      with run Inr v show ?thesis
        by (simp add: then_do_def try_except_def ret_def)
    qed
  qed
qed

lemma batch_loop_run_each:
  "batch_loop env uf fmt md idx ps ims errs s =
     (Inr (ims @ successes (fst (run_each env uf fmt md ps s)),
           errs @ failure_lines idx (fst (run_each env uf fmt md ps s))),
      snd (run_each env uf fmt md ps s))"
proof (induction ps arbitrary: idx ims errs s)
  case Nil
  show ?case by (simp add: ret_def)
next
  case (Cons p rest)
  obtain r s1 where run: "upscale_image_gradio env p uf fmt md s = (r, s1)"
    by (cases "upscale_image_gradio env p uf fmt md s")
  obtain rs s2 where rest: "run_each env uf fmt md rest s1 = (rs, s2)"
    by (cases "run_each env uf fmt md rest s1")
  have "batch_loop env uf fmt md idx (p # rest) ims errs s =
      batch_loop env uf fmt md (Suc idx) rest (ims @ successes [r]) (errs @ failure_lines idx [r]) s1"
    using run by (simp only: batch_loop_step prod.case)
  also have "\<dots> = (Inr ((ims @ successes [r]) @ successes rs,
                       (errs @ failure_lines idx [r]) @ failure_lines (Suc idx) rs), s2)"
    using rest by (simp only: Cons.IH fst_conv snd_conv)
  also have "\<dots> = (Inr (ims @ successes (r # rs), errs @ failure_lines idx (r # rs)), s2)"
    using successes_Cons [of r rs] failure_lines_Cons [of idx r rs] by simp
  finally show ?case using run rest by simp
qed

lemma run_each_Cons:
  "fst (run_each env uf fmt md (p # rest) s) =
     fst (upscale_image_gradio env p uf fmt md s) #
     fst (run_each env uf fmt md rest (snd (upscale_image_gradio env p uf fmt md s)))"
  "snd (run_each env uf fmt md (p # rest) s) =
     snd (run_each env uf fmt md rest (snd (upscale_image_gradio env p uf fmt md s)))"
  by (simp_all split: prod.splits)

declare run_each.simps(2) [simp del]

lemma length_run_each: "length (fst (run_each env uf fmt md ps s)) = length ps"
  by (induction ps arbitrary: s) (simp_all add: run_each_Cons)

lemma run_each_counts:
  "counts g c s \<Longrightarrow> counts (g + length ps) (c + length ps) (snd (run_each env uf fmt md ps s))"
proof (induction ps arbitrary: g c s)
  case Nil
  then show ?case by simp
next
  case (Cons p rest)
  have "counts (Suc g) (Suc c) (snd (upscale_image_gradio env p uf fmt md s))"
    by (rule upscale_image_gradio_counts [OF Cons.prems])
  from Cons.IH [OF this] show ?case by (simp add: run_each_Cons)
qed

lemma batch_upscale_gradio_run_each:
  "ps \<noteq> [] \<Longrightarrow>
   batch_upscale_gradio env (Some ps) uf fmt md s =
     (Inr (batch_summary (fst (run_each env uf fmt md ps s))), snd (run_each env uf fmt md ps s))"
  by (simp add: batch_upscale_gradio_def batch_loop_run_each try_except_def then_do_def ret_def
      batch_summary_def)

lemma batch_upscale_gradio_empty:
  "batch_upscale_gradio env None uf fmt md s = (Inr ([], ''Error: No images provided''), s)"
  "batch_upscale_gradio env (Some []) uf fmt md s = (Inr ([], ''Error: No images provided''), s)"
  by (simp_all add: batch_upscale_gradio_def try_except_def ret_def)






lemma then_do_ret: "then_do (ret x) f = f x"
  by (simp add: then_do_def ret_def)

text \<open>The calls of the upscaler and the saves, along a growing trace.\<close>

lemma upscaler_factors_append:
  "upscaler_factors (xs @ ys) = upscaler_factors xs @ upscaler_factors ys"
  by (induction xs rule: upscaler_factors.induct) simp_all

lemma saves_append: "saves (xs @ ys) = saves xs @ saves ys"
  by (induction xs rule: saves.induct) simp_all

lemma factors_are_ticks [simp]: "factors_are fs (s\<lparr>ticks := n\<rparr>) = factors_are fs s"
  by (simp add: factors_are_def)

lemma factors_are_emit_other [simp]:
  "upscaler_factors [ev] = [] \<Longrightarrow> factors_are fs (s\<lparr>trace := trace s @ [ev]\<rparr>) = factors_are fs s"
  by (simp add: factors_are_def upscaler_factors_append)









lemma custom_success:
  assumes "upscale_with_custom_dimensions_gradio env input_image tw th fmt md s =
             (Inr (Some out, msg), s')"
  shows "\<exists>p orig fw fh.
           input_image = Some p \<and> image_open env p = Inr orig \<and>
           parse_scale_factor env tw (width orig) = Inr fw \<and>
           parse_scale_factor env th (height orig) = Inr fh \<and>
           width out = fw \<and> height out = fh \<and>
           saves (trace s') = saves (trace s) @
             [(out,
               os_path_join (OUTPUT_DIR env)
                 (custom_filename fw fh (clock env (ticks s)) (fst (output_settings fmt))),
               snd (output_settings fmt))]"
  using assms
  by (auto simp: upscale_with_custom_dimensions_gradio_def
      upscale_with_custom_dimensions_gradio_body_def upscale_image_def
      then_do_def lift_def ret_def try_except_def try_finally_def cleanup_def emit_def
      save_image_def write_json_def time_time_def time_ctime_def saves_append
      image_resize_def true_divide_def
      split: sum.splits option.splits if_splits prod.splits)

lemma all_supported_ticks [simp]: "all_supported (s\<lparr>ticks := n\<rparr>) = all_supported s"
  by (simp add: all_supported_def)

lemma all_supported_emit_other [simp]:
  "upscaler_factors [ev] = [] \<Longrightarrow> all_supported (s\<lparr>trace := trace s @ [ev]\<rparr>) = all_supported s"
  by (simp add: all_supported_def upscaler_factors_append)










text \<open>What the entry points return.\<close>

lemma returns_ret [returns_intros]: "R x \<Longrightarrow> returns R (ret x)"
  by (simp add: returns_def ret_def)

lemma returns_then_do [returns_intros]:
  "(\<And>x. returns R (f x)) \<Longrightarrow> returns R (then_do m f)"
  by (auto simp: returns_def then_do_def split: prod.splits sum.splits)

lemma returns_try_except [returns_intros]:
  "returns R m \<Longrightarrow> (\<And>e. returns R (h e)) \<Longrightarrow> returns R (try_except m h)"
  by (auto simp: returns_def try_except_def split: prod.splits sum.splits)

lemma returns_try_finally [returns_intros]:
  "returns R m \<Longrightarrow> returns R (try_finally m c)"
  by (auto simp: returns_def try_finally_def split: prod.splits sum.splits)

lemma returns_if [returns_intros]:
  "(c \<Longrightarrow> returns R a) \<Longrightarrow> (\<not> c \<Longrightarrow> returns R b) \<Longrightarrow> returns R (if c then a else b)"
  by simp

lemma returns_case_option [returns_intros]:
  "(x = None \<Longrightarrow> returns R a) \<Longrightarrow> (\<And>y. x = Some y \<Longrightarrow> returns R (b y)) \<Longrightarrow>
   returns R (case x of None \<Rightarrow> a | Some y \<Rightarrow> b y)"
  by (cases x) simp_all

lemma returns_case_prod [returns_intros]:
  "(\<And>a b. x = (a, b) \<Longrightarrow> returns R (f a b)) \<Longrightarrow> returns R (case x of (a, b) \<Rightarrow> f a b)"
  by (cases x) simp









lemmas eval_defs =
  upscale_image_gradio_def upscale_image_gradio_body_def upscale_image_def
  upscale_with_custom_dimensions_gradio_def upscale_with_custom_dimensions_gradio_body_def
  sample_env_def fresh_world_def then_do_def lift_def ret_def try_except_def try_finally_def
  cleanup_def emit_def save_image_def write_json_def time_time_def time_ctime_def
  output_settings_def upscaled_filename_def custom_filename_def os_path_join_def
  os_path_basename_def str_int_def digit_char_def image_resize_def true_divide_def
  choose_factor_def

subsection \<open>Resolution of the requested factor\<close>

lemma parse_upscale_factor_2x: "parse_upscale_factor (PStr ''2x'') = Inr 2"
  by code_simp

lemma parse_upscale_factor_3: "parse_upscale_factor (PStr ''3'') = Inr 3"
  by code_simp

lemma parse_upscale_factor_4_0: "parse_upscale_factor (PStr ''4.0'') = Inr 4"
  by code_simp


lemma parse_upscale_factor_blank:
  "parse_upscale_factor (PStr '' '') =
     Inl (Exc ValueError (''invalid literal for int() with base 10: '' @ [CHR 0x27, CHR 0x20, CHR 0x27]))"
  by code_simp

lemma float_of_str_error: "float_of_str t = Inl e \<Longrightarrow> exc_class e = ValueError"
  by (auto simp: float_of_str_def split: prod.splits if_splits option.splits)

lemma int_of_float_NaN_error:
  "int_of_float x = Inl e \<Longrightarrow> exc_class e = ValueError \<or> exc_class e = OverflowError"
  by (auto simp: int_of_float_def split: pyfloat.splits)

text \<open>
  A string with a character that is not white space, on which \<^verbatim>\<open>float\<close> raises, resolves
  to the default factor 2, with or without a trailing \<^verbatim>\<open>x\<close>.
\<close>

lemma unparsable_string_falls_back:
  assumes "strip s \<noteq> []"
    and "float_of_str
           (if endswith (lower (strip s)) ''x'' then remove_char CHR ''x'' (lower (strip s)) else s)
         = Inl e"
  shows "parse_upscale_factor (PStr s) = Inr 2"
  using assms float_of_str_error [OF assms(2)]
  by (auto simp: parse_upscale_factor_def except_ValueError_def bind_result_def split: if_splits)

lemma sample_blank_factor:
  "upscale_image_gradio sample_env (Some ''a.png'') (PStr '' '') ''PNG'' False fresh_world =
     (Inr (None, ''Error: invalid literal for int() with base 10: '' @ [CHR 0x27, CHR 0x20, CHR 0x27]),
      \<lparr>trace = [GcCollect, ForceMlxCleanup], ticks = 0\<rparr>)"
  by (simp add: eval_defs parse_upscale_factor_blank)

text \<open>
  Claim C1. The strings \<^verbatim>\<open>"2x"\<close>, \<^verbatim>\<open>"3"\<close> and \<^verbatim>\<open>"4.0"\<close> resolve to 2, 3 and 4,
  \<^verbatim>\<open>"5x"\<close> resolves to 5 and is rejected, and a string that \<^verbatim>\<open>float\<close> cannot read falls
  back to 2 as long as it has a character that is not white space (the lemmas above). A string
  of white space only is the exception: it is sent to the branch written for values that are
  not strings, where \<^verbatim>\<open>int\<close> raises on it, so the call answers with an error instead of
  upscaling with the default factor.
\<close>

theorem blank_factor_string_is_an_error:
  "parse_upscale_factor (PStr '' '') =
     Inl (Exc ValueError (''invalid literal for int() with base 10: '' @ [CHR 0x27, CHR 0x20, CHR 0x27])) \<and>
   upscale_image_gradio sample_env (Some ''a.png'') (PStr '' '') ''PNG'' False fresh_world =
     (Inr (None, ''Error: invalid literal for int() with base 10: '' @ [CHR 0x27, CHR 0x20, CHR 0x27]),
      \<lparr>trace = [GcCollect, ForceMlxCleanup], ticks = 0\<rparr>)"
  using parse_upscale_factor_blank sample_blank_factor by (rule conjI)

subsection \<open>Only supported factors reach the upscaler\<close>





subsection \<open>Custom dimensions\<close>



lemma sample_custom_250_300:
  "upscale_with_custom_dimensions_gradio sample_env (Some ''a.png'') (PInt 250) (PInt 300)
       ''PNG'' False fresh_world =
     (Inr (Some \<lparr>width = 250, height = 300\<rparr>, ''Successfully upscaled image to 250x300''),
      \<lparr>trace =
         [UpscalerCall \<lparr>width = 100, height = 100\<rparr> 3,
          ImageSave \<lparr>width = 250, height = 300\<rparr>
            ''/app/output/upscaled_custom_250x300_1700000000.png''
            \<lparr>format = ''PNG'', quality = None\<rparr>,
          GcCollect, ForceMlxCleanup],
       ticks = 1\<rparr>)"
  by (simp add: eval_defs)

text \<open>
  Claim C4. Whenever \<^verbatim>\<open>upscale_with_custom_dimensions_gradio\<close> succeeds, the image it
  returns has exactly the resolved target width and height. For an original of 100 by 100
  with the targets 250 and 300 the effective scale is 3, the upscaler is called with the
  factor 3, and the image returned and saved is 250 by 300.
\<close>

theorem custom_result_has_target_size:
  "(upscale_with_custom_dimensions_gradio env input_image tw th fmt md s =
      (Inr (Some out, msg), s') \<longrightarrow>
    (\<exists>p orig fw fh.
       input_image = Some p \<and> image_open env p = Inr orig \<and>
       parse_scale_factor env tw (width orig) = Inr fw \<and>
       parse_scale_factor env th (height orig) = Inr fh \<and>
       width out = fw \<and> height out = fh)) \<and>
   max (of_int 250 / of_int 100) (of_int 300 / of_int 100) = (3::rat) \<and>
   choose_factor 3 = 3 \<and>
   upscale_with_custom_dimensions_gradio sample_env (Some ''a.png'') (PInt 250) (PInt 300)
       ''PNG'' False fresh_world =
     (Inr (Some \<lparr>width = 250, height = 300\<rparr>, ''Successfully upscaled image to 250x300''),
      \<lparr>trace =
         [UpscalerCall \<lparr>width = 100, height = 100\<rparr> 3,
          ImageSave \<lparr>width = 250, height = 300\<rparr>
            ''/app/output/upscaled_custom_250x300_1700000000.png''
            \<lparr>format = ''PNG'', quality = None\<rparr>,
          GcCollect, ForceMlxCleanup],
       ticks = 1\<rparr>)"
proof (intro conjI impI)
  assume "upscale_with_custom_dimensions_gradio env input_image tw th fmt md s =
      (Inr (Some out, msg), s')"
  from custom_success [OF this]
  show "\<exists>p orig fw fh.
       input_image = Some p \<and> image_open env p = Inr orig \<and>
       parse_scale_factor env tw (width orig) = Inr fw \<and>
       parse_scale_factor env th (height orig) = Inr fh \<and>
       width out = fw \<and> height out = fh"
    by blast
next
  show "max (of_int 250 / of_int 100) (of_int 300 / of_int 100) = (3::rat)" by simp
next
  show "choose_factor 3 = 3" by (simp add: choose_factor_def)
next
  show "upscale_with_custom_dimensions_gradio sample_env (Some ''a.png'') (PInt 250) (PInt 300)
       ''PNG'' False fresh_world =
     (Inr (Some \<lparr>width = 250, height = 300\<rparr>, ''Successfully upscaled image to 250x300''),
      \<lparr>trace =
         [UpscalerCall \<lparr>width = 100, height = 100\<rparr> 3,
          ImageSave \<lparr>width = 250, height = 300\<rparr>
            ''/app/output/upscaled_custom_250x300_1700000000.png''
            \<lparr>format = ''PNG'', quality = None\<rparr>,
          GcCollect, ForceMlxCleanup],
       ticks = 1\<rparr>)"
    by (rule sample_custom_250_300)
qed

lemma sample_custom_small:
  "fst (upscale_with_custom_dimensions_gradio sample_env (Some ''small.png'') (PInt 120) (PInt 200)
       ''JPEG'' True fresh_world) =
     Inr (Some \<lparr>width = 120, height = 200\<rparr>, ''Successfully upscaled image to 120x200'')"
  by (simp add: eval_defs)

theorem custom_result_has_target_size_witness:
  "fst (upscale_with_custom_dimensions_gradio sample_env (Some ''small.png'') (PInt 120) (PInt 200)
       ''JPEG'' True fresh_world) =
     Inr (Some \<lparr>width = 120, height = 200\<rparr>, ''Successfully upscaled image to 120x200'') \<and>
   width \<lparr>width = 120, height = 200\<rparr> = 120 \<and> height \<lparr>width = 120, height = 200\<rparr> = 200"
proof -
  let ?out = "\<lparr>width = 120, height = 200\<rparr>"
  obtain s' where run:
    "upscale_with_custom_dimensions_gradio sample_env (Some ''small.png'') (PInt 120) (PInt 200)
       ''JPEG'' True fresh_world =
     (Inr (Some ?out, ''Successfully upscaled image to 120x200''), s')"
    using sample_custom_small by (metis prod.collapse)
  from custom_result_has_target_size [THEN conjunct1, rule_format, OF run]
  obtain p orig fw fh where r: "Some ''small.png'' = Some p" "image_open sample_env p = Inr orig"
    "parse_scale_factor sample_env (PInt 120) (width orig) = Inr fw"
    "parse_scale_factor sample_env (PInt 200) (height orig) = Inr fh"
    "width ?out = fw" "height ?out = fh"
    by blast
  from r(3,4) have "fw = 120" "fh = 200" by (simp_all add: sample_env_def)
  with r(5,6) sample_custom_small show ?thesis by simp
qed

subsection \<open>Saved files\<close>








subsection \<open>The batch\<close>

lemma length_successes_failure_lines:
  "length (successes rs) + length (failure_lines idx rs) = length rs"
  by (induction idx rs rule: failure_lines.induct) simp_all

lemma failure_line_at:
  "i < length rs \<Longrightarrow> rs ! i = Inr (None, msg) \<Longrightarrow>
   (''Image '' @ str_int (int (idx + i) + 1) @ '': '' @ msg) \<in> set (failure_lines idx rs)"
proof (induction idx rs arbitrary: i rule: failure_lines.induct)
  case (1 idx)
  then show ?case by simp
next
  case (2 idx im message rs)
  then show ?case by (cases i) simp_all
next
  case (3 idx message rs)
  then show ?case by (cases i) simp_all
next
  case (4 idx e rs)
  then show ?case by (cases i) simp_all
qed

text \<open>
  Claim C6. A non-empty batch is processed one image after the other: every image of the list
  gets its call of \<^verbatim>\<open>upscale_image_gradio\<close>, whatever happened to the images before it.
  The images returned are those of the calls that succeeded, in order; every call that
  failed leaves one line \<^verbatim>\<open>Image i: message\<close> with \<open>i\<close> the position of the image counted
  from 1; the message gives the number of successes followed by the failure lines, or says
  that no image could be upscaled and lists the failure lines.
\<close>

theorem batch_processes_every_image:
  "ps \<noteq> [] \<longrightarrow>
     batch_upscale_gradio env (Some ps) uf fmt md s =
       (Inr (batch_summary (fst (run_each env uf fmt md ps s))),
        snd (run_each env uf fmt md ps s)) \<and>
     length (fst (run_each env uf fmt md ps s)) = length ps \<and>
     length (successes (fst (run_each env uf fmt md ps s))) +
       length (failure_lines 0 (fst (run_each env uf fmt md ps s))) = length ps \<and>
     (\<forall>i msg. i < length ps \<and> fst (run_each env uf fmt md ps s) ! i = Inr (None, msg) \<longrightarrow>
        (''Image '' @ str_int (int i + 1) @ '': '' @ msg)
          \<in> set (failure_lines 0 (fst (run_each env uf fmt md ps s))))"
proof (intro impI conjI allI)
  assume "ps \<noteq> []"
  then show "batch_upscale_gradio env (Some ps) uf fmt md s =
       (Inr (batch_summary (fst (run_each env uf fmt md ps s))),
        snd (run_each env uf fmt md ps s))"
    by (rule batch_upscale_gradio_run_each)
next
  show "length (fst (run_each env uf fmt md ps s)) = length ps"
    by (rule length_run_each)
next
  show "length (successes (fst (run_each env uf fmt md ps s))) +
       length (failure_lines 0 (fst (run_each env uf fmt md ps s))) = length ps"
    by (simp add: length_successes_failure_lines length_run_each)
next
  fix i msg
  assume "i < length ps \<and> fst (run_each env uf fmt md ps s) ! i = Inr (None, msg)"
  then have "i < length (fst (run_each env uf fmt md ps s))"
    and "fst (run_each env uf fmt md ps s) ! i = Inr (None, msg)"
    by (simp_all add: length_run_each)
  from failure_line_at [OF this, of 0]
  show "(''Image '' @ str_int (int i + 1) @ '': '' @ msg)
          \<in> set (failure_lines 0 (fst (run_each env uf fmt md ps s)))"
    by simp
qed

lemma sample_a:
  "fst (upscale_image_gradio sample_env (Some ''a.png'') (PInt 2) ''PNG'' False s) =
     Inr (Some \<lparr>width = 200, height = 200\<rparr>, ''Successfully upscaled image 2x to 200x200'')"
  by (simp add: eval_defs parse_upscale_factor_def)

lemma sample_b:
  "fst (upscale_image_gradio sample_env (Some ''b.png'') (PInt 2) ''PNG'' False s) =
     Inr (None, ''Error: cannot identify image file'')"
  by (simp add: eval_defs parse_upscale_factor_def)

lemma sample_c:
  "fst (upscale_image_gradio sample_env (Some ''c.png'') (PInt 2) ''PNG'' False s) =
     Inr (Some \<lparr>width = 200, height = 200\<rparr>, ''Successfully upscaled image 2x to 200x200'')"
  by (simp add: eval_defs parse_upscale_factor_def)

lemma sample_outcomes:
  "fst (run_each sample_env (PInt 2) ''PNG'' False [Some ''a.png'', Some ''b.png'', Some ''c.png''] s) =
     [Inr (Some \<lparr>width = 200, height = 200\<rparr>, ''Successfully upscaled image 2x to 200x200''),
      Inr (None, ''Error: cannot identify image file''),
      Inr (Some \<lparr>width = 200, height = 200\<rparr>, ''Successfully upscaled image 2x to 200x200'')]"
  by (simp only: run_each_Cons run_each.simps(1) sample_a sample_b sample_c fst_conv)

lemma sample_summary:
  "batch_summary
     [Inr (Some \<lparr>width = 200, height = 200\<rparr>, ''Successfully upscaled image 2x to 200x200''),
      Inr (None, ''Error: cannot identify image file''),
      Inr (Some \<lparr>width = 200, height = 200\<rparr>, ''Successfully upscaled image 2x to 200x200'')] =
   ([\<lparr>width = 200, height = 200\<rparr>, \<lparr>width = 200, height = 200\<rparr>],
    ''Successfully upscaled 2 image(s)'' @ [CHR 0x0A, CHR 0x0A] @ ''Errors:'' @ [CHR 0x0A] @
    ''Image 2: Error: cannot identify image file'')"
  by (simp add: batch_summary_def str_int_def digit_char_def)

theorem batch_processes_every_image_witness:
  "fst (batch_upscale_gradio sample_env (Some [Some ''a.png'', Some ''b.png'', Some ''c.png''])
       (PInt 2) ''PNG'' False fresh_world) =
     Inr ([\<lparr>width = 200, height = 200\<rparr>, \<lparr>width = 200, height = 200\<rparr>],
          ''Successfully upscaled 2 image(s)'' @ [CHR 0x0A, CHR 0x0A] @ ''Errors:'' @ [CHR 0x0A] @
          ''Image 2: Error: cannot identify image file'')"
proof -
  have ne: "[Some ''a.png'', Some ''b.png'', Some ''c.png''] \<noteq> []" by simp
  from batch_processes_every_image [rule_format, OF ne, THEN conjunct1,
      of sample_env "PInt 2" "''PNG''" False fresh_world]
  show ?thesis
    by (simp only: sample_outcomes sample_summary fst_conv)
qed

subsection \<open>Memory cleanup\<close>

text \<open>
  Claim C7, as stated, fails for the batch: a batch of three images runs the cleanup three
  times, and an empty batch does not run it at all.
\<close>

theorem batch_cleanup_is_not_once:
  "cleanup_count (snd (batch_upscale_gradio sample_env
      (Some [Some ''a.png'', Some ''b.png'', Some ''c.png'']) (PInt 2) ''PNG'' False fresh_world)) = 3 \<and>
   cleanup_count (snd (batch_upscale_gradio sample_env (Some []) (PInt 2) ''PNG'' False
      fresh_world)) = 0"
proof
  have c: "counts 0 0 fresh_world"
    by (simp add: counts_def gc_count_def cleanup_count_def fresh_world_def)
  from run_each_counts [OF c, of "[Some ''a.png'', Some ''b.png'', Some ''c.png'']" sample_env
      "PInt 2" "''PNG''" False]
  show "cleanup_count (snd (batch_upscale_gradio sample_env
      (Some [Some ''a.png'', Some ''b.png'', Some ''c.png'']) (PInt 2) ''PNG'' False fresh_world)) = 3"
    by (simp add: batch_upscale_gradio_run_each counts_def)
next
  show "cleanup_count (snd (batch_upscale_gradio sample_env (Some []) (PInt 2) ''PNG'' False
      fresh_world)) = 0"
    by (simp add: batch_upscale_gradio_empty cleanup_count_def fresh_world_def)
qed

text \<open>
  Claim C7, amended. Every call of \<^verbatim>\<open>upscale_image_gradio\<close> and of
  \<^verbatim>\<open>upscale_with_custom_dimensions_gradio\<close>, on every path, runs the garbage collection
  once and the MLX cache purge once. \<^verbatim>\<open>batch_upscale_gradio\<close> has no cleanup of its own:
  a call runs the two steps once for every image of its list, through the calls of
  \<^verbatim>\<open>upscale_image_gradio\<close>, hence not at all for a missing or empty list.
\<close>

theorem cleanup_once_per_image_call:
  "gc_count (snd (upscale_image_gradio env input_image uf fmt md s)) = gc_count s + 1 \<and>
   cleanup_count (snd (upscale_image_gradio env input_image uf fmt md s)) = cleanup_count s + 1 \<and>
   gc_count (snd (upscale_with_custom_dimensions_gradio env input_image tw th fmt md s)) =
     gc_count s + 1 \<and>
   cleanup_count (snd (upscale_with_custom_dimensions_gradio env input_image tw th fmt md s)) =
     cleanup_count s + 1 \<and>
   gc_count (snd (batch_upscale_gradio env input_images uf fmt md s)) =
     gc_count s + (case input_images of None \<Rightarrow> 0 | Some ps \<Rightarrow> length ps) \<and>
   cleanup_count (snd (batch_upscale_gradio env input_images uf fmt md s)) =
     cleanup_count s + (case input_images of None \<Rightarrow> 0 | Some ps \<Rightarrow> length ps)"
proof -
  have c: "counts (gc_count s) (cleanup_count s) s" by (simp add: counts_def)
  have single: "counts (Suc (gc_count s)) (Suc (cleanup_count s))
      (snd (upscale_image_gradio env input_image uf fmt md s))"
    by (rule upscale_image_gradio_counts [OF c])
  have custom: "counts (Suc (gc_count s)) (Suc (cleanup_count s))
      (snd (upscale_with_custom_dimensions_gradio env input_image tw th fmt md s))"
    by (rule custom_counts [OF c])
  have batch: "counts (gc_count s + (case input_images of None \<Rightarrow> 0 | Some ps \<Rightarrow> length ps))
      (cleanup_count s + (case input_images of None \<Rightarrow> 0 | Some ps \<Rightarrow> length ps))
      (snd (batch_upscale_gradio env input_images uf fmt md s))"
  proof (cases input_images)
    case None
    with c show ?thesis by (simp add: batch_upscale_gradio_empty)
  next
    case (Some ps)
    show ?thesis
    proof (cases "ps = []")
      case True
      with Some c show ?thesis by (simp add: batch_upscale_gradio_empty)
    next
      case False
      with Some run_each_counts [OF c, of ps env uf fmt md] show ?thesis
        by (simp add: batch_upscale_gradio_run_each)
    qed
  qed
  from single custom batch show ?thesis by (simp add: counts_def)
qed

subsection \<open>Failures are answers\<close>






end
